theory Spec2Isabelle
  imports Complex_Main
begin

section \<open>Python values\<close>

text \<open>
  A Python float: a finite value, an infinity, or NaN. The finite values of the platform
  are the doubles; \<open>Finite x\<close> stands for the double whose value is \<open>x\<close>, and the model
  never computes with two floats without rounding the result (see \<open>fsub\<close> below).
  Negative zero is \<open>Finite 0\<close>.
\<close>

datatype pyfloat = Finite real | PosInf | NegInf | NaN

text \<open>
  The request bodies of \<^verbatim>\<open>main.py\<close> and the serial payloads of \<^verbatim>\<open>serialbridge.py\<close> are
  whatever \<^verbatim>\<open>json.loads\<close> produces: \<^verbatim>\<open>None\<close>, booleans, integers of any size, floats
  (\<^verbatim>\<open>NaN\<close> and \<^verbatim>\<open>Infinity\<close> are read too), strings, lists and dictionaries. A dictionary is
  an association list in insertion order, looked up at the first binding of a key. A
  string is the text of a Python \<^verbatim>\<open>str\<close> as UTF-8 bytes.
\<close>

datatype json =
    JNull
  | JBool bool
  | JInt int
  | JFloat pyfloat
  | JStr string
  | JList "json list"
  | JObj "(string \<times> json) list"

type_synonym dict = "(string \<times> json) list"

text \<open>
  The exceptions that leave a function of the model. \<open>CommitError\<close> is what
  \<^verbatim>\<open>db.session.commit()\<close> raises when the database driver cannot bind a value;
  \<open>BadRequest\<close> and \<open>UnsupportedMediaType\<close> are the HTTP errors 400 and 415 that
  \<^verbatim>\<open>request.get_json()\<close> raises.
\<close>

datatype py_error =
    AttributeError
  | TypeError
  | OverflowError
  | CommitError
  | BadRequest
  | UnsupportedMediaType

text \<open>Truth value of a Python object, as \<^verbatim>\<open>if x\<close>, \<^verbatim>\<open>not x\<close> and \<^verbatim>\<open>x or y\<close> test it.\<close>

fun truthy :: "json \<Rightarrow> bool" where
  "truthy JNull = False"
| "truthy (JBool b) = b"
| "truthy (JInt i) = (i \<noteq> 0)"
| "truthy (JFloat f) = (f \<noteq> Finite 0)"
| "truthy (JStr s) = (s \<noteq> [])"
| "truthy (JList xs) = (xs \<noteq> [])"
| "truthy (JObj kvs) = (kvs \<noteq> [])"

definition py_or :: "json \<Rightarrow> json \<Rightarrow> json" where
  "py_or a b = (if truthy a then a else b)"

text \<open>\<^verbatim>\<open>d.get(k, default)\<close>; \<^verbatim>\<open>d.get(k)\<close> is \<open>dict_get d k JNull\<close>.\<close>

definition dict_get :: "dict \<Rightarrow> string \<Rightarrow> json \<Rightarrow> json" where
  "dict_get d k dflt = (case map_of d k of None \<Rightarrow> dflt | Some v \<Rightarrow> v)"

text \<open>Truth value of a nullable string column (\<^verbatim>\<open>None\<close> and \<^verbatim>\<open>""\<close> are false).\<close>

fun truthy_str :: "string option \<Rightarrow> bool" where
  "truthy_str None = False"
| "truthy_str (Some s) = (s \<noteq> [])"

text \<open>\<^verbatim>\<open>str(n)\<close> of an integer, in decimal.\<close>

fun str_nat :: "nat \<Rightarrow> string" where
  "str_nat n =
     (if n < 10 then [''0123456789'' ! n]
      else str_nat (n div 10) @ [''0123456789'' ! (n mod 10)])"

declare str_nat.simps [simp del]

definition str_int :: "int \<Rightarrow> string" where
  "str_int i = (if i < 0 then CHR ''-'' # str_nat (nat (- i)) else str_nat (nat i))"

text \<open>\<^verbatim>\<open>sep.join(xs)\<close>.\<close>

fun join :: "string \<Rightarrow> string list \<Rightarrow> string" where
  "join sep [] = []"
| "join sep [x] = x"
| "join sep (x # y # ys) = x @ sep @ join sep (y # ys)"

section \<open>The backend: \<^verbatim>\<open>main.py\<close>\<close>

subsection \<open>Tables\<close>

text \<open>
  What a \<^verbatim>\<open>String\<close> column of the SQLite store holds: \<^verbatim>\<open>NULL\<close> or a text. \<open>FloatText f\<close> is the
  text SQLite writes for the float \<open>f\<close>.
\<close>

datatype cell = Null | Text string | FloatText pyfloat

text \<open>
  What the database driver makes of a Python value bound to a \<^verbatim>\<open>String\<close> column at a
  commit: \<^verbatim>\<open>None\<close> and NaN become \<^verbatim>\<open>NULL\<close>, a string is kept, a boolean or an integer of at
  most 64 bits is stored as its decimal text, a float as its text; a larger integer, a
  list and a dictionary are refused (\<open>None\<close>), and the commit raises.
\<close>

fun bind :: "json \<Rightarrow> cell option" where
  "bind JNull = Some Null"
| "bind (JBool b) = Some (Text (if b then ''1'' else ''0''))"
| "bind (JInt i) =
     (if - (2 ^ 63) \<le> i \<and> i < 2 ^ 63 then Some (Text (str_int i)) else None)"
| "bind (JFloat f) = Some (if f = NaN then Null else FloatText f)"
| "bind (JStr s) = Some (Text s)"
| "bind (JList xs) = None"
| "bind (JObj kvs) = None"

text \<open>
  The rows of the two tables, with the types of their columns. \<^verbatim>\<open>raw\<close> holds the
  dictionary whose text \<^verbatim>\<open>str(data)\<close> is stored.
\<close>

record ngo =
  ngo_id :: int
  ngo_name :: "string option"
  ngo_phone :: "string option"
  ngo_email :: "string option"
  ngo_lat :: "real option"
  ngo_lon :: "real option"
  ngo_services :: "string option"

record event =
  ev_id :: int
  ev_device_id :: cell
  ev_event_type :: cell
  ev_raw :: json
  ev_created_at :: int
  ev_matched_ngos :: "string option"
  ev_status :: string

record db =
  events :: "event list"
  ngos :: "ngo list"

text \<open>
  The primary key the store gives a new \<^verbatim>\<open>Event\<close> row: one more than the largest key
  in the table, 1 in an empty table.
\<close>

definition next_id :: "event list \<Rightarrow> int" where
  "next_id evs = fold max (map ev_id evs) 0 + 1"

subsection \<open>What a request does besides answering\<close>

text \<open>
  The two message templates of \<^verbatim>\<open>notify_ngos\<close>, each with the value formatted into its
  \<^verbatim>\<open>{device_id}\<close> hole: \<open>AlertText\<close> is the text "ALERT: Person needs assistance at
  ... They have been present for 3+ minutes. Please respond.", \<open>NotificationText\<close> is
  "NOTIFICATION: Motion detected at ... Monitoring situation.".
\<close>

datatype msg_text = AlertText json | NotificationText json

text \<open>The lines the handlers print, with the values formatted into them.\<close>

datatype line =
    Received json json
  | CriticalAlert
  | NoNGOsRegistered
  | Matched nat json
  | Notifying "string option" "string option" msg_text
  | SmsSent
  | TwilioError
  | EventNotified int nat
  | NoNGOsAvailable
  | EventLogged int

datatype effect =
    Printed line
  | Commit
  | QueryAllNGO
  | SmsAttempt msg_text "string option" "string option"

record config =
  TWILIO_SID :: "string option"
  TWILIO_TOKEN :: "string option"
  TWILIO_FROM :: "string option"

subsection \<open>\<^verbatim>\<open>match_ngos_for_event\<close>\<close>

definition match_ngos_for_event :: "db \<Rightarrow> dict \<Rightarrow> ngo list \<times> effect list" where
  "match_ngos_for_event d event_json =
     (let event_type = dict_get event_json ''event_type'' (JStr '''');
          all_ngos = ngos d
      in if all_ngos = [] then ([], [QueryAllNGO, Printed NoNGOsRegistered])
         else
           (let matched = take 10 all_ngos
            in (matched, [QueryAllNGO, Printed (Matched (length matched) event_type)])))"

subsection \<open>\<^verbatim>\<open>notify_ngos\<close>\<close>

text \<open>
  One entry of the list \<^verbatim>\<open>notify_ngos\<close> returns: the dictionary literal with the keys
  \<^verbatim>\<open>ngo\<close>, \<^verbatim>\<open>phone\<close> and \<^verbatim>\<open>message\<close>.
\<close>

record msg =
  msg_ngo :: "string option"
  msg_phone :: "string option"
  msg_message :: msg_text

text \<open>Lines 72 to 78: the text built for an event.\<close>

definition message_text :: "dict \<Rightarrow> msg_text" where
  "message_text event =
     (let event_type = dict_get event ''event_type'' (JStr ''unknown'');
          device_id = dict_get event ''device_id'' (JStr ''unknown'')
      in if event_type = JStr ''possible_encampment''
         then AlertText device_id else NotificationText device_id)"

text \<open>
  The loop over the matched responders. \<open>failing\<close> holds the positions in the list at
  which the provider call, when it is made, raises; at every other position it returns.
  \<open>SmsAttempt\<close> records the body, sender and recipient of a call that is made.
\<close>

fun notify_loop ::
  "config \<Rightarrow> nat set \<Rightarrow> dict \<Rightarrow> nat \<Rightarrow> ngo list \<Rightarrow> msg list \<times> effect list" where
  "notify_loop cfg failing event i [] = ([], [])"
| "notify_loop cfg failing event i (n # rest) =
     (let message = message_text event;
          entry = \<lparr>msg_ngo = ngo_name n, msg_phone = ngo_phone n, msg_message = message\<rparr>;
          sms = (if truthy_str (TWILIO_SID cfg) \<and> truthy_str (ngo_phone n)
                 then [SmsAttempt message (TWILIO_FROM cfg) (ngo_phone n),
                       Printed (if i \<in> failing then TwilioError else SmsSent)]
                 else []);
          later = notify_loop cfg failing event (Suc i) rest
      in (entry # fst later,
          Printed (Notifying (ngo_name n) (ngo_phone n) message) # sms @ snd later))"

definition notify_ngos ::
  "config \<Rightarrow> nat set \<Rightarrow> ngo list \<Rightarrow> dict \<Rightarrow> msg list \<times> effect list" where
  "notify_ngos cfg failing matched event = notify_loop cfg failing event 0 matched"

subsection \<open>\<^verbatim>\<open>receive_event\<close>\<close>

text \<open>
  What a request carries for \<^verbatim>\<open>request.get_json()\<close> at line 102: no JSON body (no body, or
  a content type that is not JSON), a body that does not parse as JSON (an empty one
  too), or a body that parses to a value. As Flask does it from version 2.3 on, the
  first raises the HTTP error 415 and the second the HTTP error 400; the handler does
  not catch either.
\<close>

datatype request_body = NoJson | Malformed | Json json

definition get_json :: "request_body \<Rightarrow> py_error + json" where
  "get_json rq =
     (case rq of
        NoJson \<Rightarrow> Inl UnsupportedMediaType
      | Malformed \<Rightarrow> Inl BadRequest
      | Json v \<Rightarrow> Inr v)"

record response =
  resp_status :: string
  resp_event_id :: int
  resp_notified :: "msg list option"
  resp_message :: string

text \<open>Line 102: \<^verbatim>\<open>request.get_json() or {}\<close>, on the value \<^verbatim>\<open>get_json\<close> returned.\<close>

definition request_data :: "json \<Rightarrow> json" where
  "request_data body = py_or body (JObj [])"

text \<open>Line 104.\<close>

definition request_device_id :: "dict \<Rightarrow> json" where
  "request_device_id data = dict_get data ''device_id'' (JStr ''unknown'')"

text \<open>Line 105.\<close>

definition request_event_type :: "dict \<Rightarrow> json" where
  "request_event_type data =
     py_or (py_or (dict_get data ''event'' JNull) (dict_get data ''event_type'' JNull))
       (JStr ''unknown'')"

text \<open>
  The handler of \<^verbatim>\<open>POST /api/event\<close>. \<open>now\<close> is what \<^verbatim>\<open>datetime.utcnow()\<close> returns. An
  exception leaves the handler with the trace up to it and the store as it was (the
  answer is the HTTP error, or 500): \<^verbatim>\<open>get_json\<close> may raise; a body that is true and is not
  a dictionary has no \<^verbatim>\<open>get\<close>; the commit of line 120 raises when the driver refuses the
  device id or the event type, and then no row is stored. The commit of line 138 binds
  two strings.
\<close>

definition receive_event ::
  "config \<Rightarrow> nat set \<Rightarrow> int \<Rightarrow> db \<Rightarrow> request_body \<Rightarrow>
   (py_error \<times> effect list) + (db \<times> response \<times> effect list)" where
  "receive_event cfg failing now d rq =
     (case get_json rq of
        Inl err \<Rightarrow> Inl (err, [])
      | Inr body \<Rightarrow>
     (case request_data body of
        JObj data \<Rightarrow>
          (let device_id = request_device_id data;
               event_type = request_event_type data;
               timestamp = now;
               e0 = [Printed (Received event_type device_id)]
           in case bind device_id of
                None \<Rightarrow> Inl (CommitError, e0)
              | Some stored_device_id \<Rightarrow>
           (case bind event_type of
                None \<Rightarrow> Inl (CommitError, e0)
              | Some stored_event_type \<Rightarrow>
          (let ev = \<lparr>ev_id = next_id (events d), ev_device_id = stored_device_id,
                     ev_event_type = stored_event_type, ev_raw = JObj data,
                     ev_created_at = timestamp, ev_matched_ngos = None,
                     ev_status = ''new''\<rparr>;
               d1 = d\<lparr>events := events d @ [ev]\<rparr>;
               e1 = e0 @ [Commit];
               should_notify = (event_type = JStr ''possible_encampment'')
           in if should_notify then
                (let m = match_ngos_for_event d1 data;
                     matched = fst m;
                     e2 = e1 @ [Printed CriticalAlert] @ snd m
                 in if matched \<noteq> [] then
                      (let nt = notify_ngos cfg failing matched data;
                           notified = fst nt;
                           ev2 = ev\<lparr>ev_matched_ngos :=
                                       Some (join '','' (map (\<lambda>n. str_int (ngo_id n)) matched)),
                                     ev_status := ''notified''\<rparr>;
                           d2 = d1\<lparr>events := events d @ [ev2]\<rparr>
                       in Inr (d2,
                               \<lparr>resp_status = ''ok'', resp_event_id = ev_id ev,
                                resp_notified = Some notified,
                                resp_message =
                                  ''Alert sent to '' @ str_nat (length matched) @ '' NGOs''\<rparr>,
                               e2 @ snd nt
                                 @ [Commit, Printed (EventNotified (ev_id ev) (length matched))]))
                    else
                      Inr (d1,
                           \<lparr>resp_status = ''warning'', resp_event_id = ev_id ev,
                            resp_notified = None,
                            resp_message = ''Event saved but no NGOs registered''\<rparr>,
                           e2 @ [Printed NoNGOsAvailable]))
              else
                Inr (d1,
                     \<lparr>resp_status = ''ok'', resp_event_id = ev_id ev,
                      resp_notified = None, resp_message = ''Event logged''\<rparr>,
                     e1 @ [Printed (EventLogged (ev_id ev))]))))
      | other \<Rightarrow> Inl (AttributeError, [])))"

subsection \<open>\<^verbatim>\<open>clear_events\<close>\<close>

text \<open>\<^verbatim>\<open>POST /admin/clear\<close>: every \<^verbatim>\<open>Event\<close> row is deleted; the answer counts them.\<close>

definition clear_events :: "db \<Rightarrow> db \<times> nat" where
  "clear_events d = (d\<lparr>events := []\<rparr>, length (events d))"

subsection \<open>Traces and stored events\<close>



fun attempts :: "effect list \<Rightarrow> (msg_text \<times> string option \<times> string option) list" where
  "attempts [] = []"
| "attempts (SmsAttempt b f t # es) = (b, f, t) # attempts es"
| "attempts (e # es) = attempts es"


text \<open>
  A stored event is sound when the status \<^verbatim>\<open>notified\<close> comes with a \<^verbatim>\<open>matched_ngos\<close>
  string that is not empty.
\<close>

definition event_sound :: "event \<Rightarrow> bool" where
  "event_sound e =
     (ev_status e = ''notified'' \<longrightarrow>
        (case ev_matched_ngos e of None \<Rightarrow> False | Some s \<Rightarrow> s \<noteq> []))"

definition store_sound :: "db \<Rightarrow> bool" where
  "store_sound d = list_all event_sound (events d)"

text \<open>
  The stores the endpoints can produce from the empty one: an ingest that answers, the
  bulk clear, and any change of the responder table (the admin endpoint adds rows to it).
\<close>

inductive reachable :: "db \<Rightarrow> bool" where
  start: "reachable \<lparr>events = [], ngos = []\<rparr>"
| ingest: "reachable d \<Longrightarrow> receive_event cfg failing now d body = Inr (d', r, es) \<Longrightarrow> reachable d'"
| clear: "reachable d \<Longrightarrow> reachable (fst (clear_events d))"
| admin: "reachable d \<Longrightarrow> reachable (d\<lparr>ngos := ns\<rparr>)"

subsection \<open>Sample data\<close>

definition shelter_a :: ngo where
  "shelter_a =
     \<lparr>ngo_id = 1, ngo_name = Some ''Shelter A'', ngo_phone = Some ''+15550100'',
      ngo_email = None, ngo_lat = None, ngo_lon = None, ngo_services = Some []\<rparr>"

definition shelter_b :: ngo where
  "shelter_b =
     \<lparr>ngo_id = 2, ngo_name = Some ''Shelter B'', ngo_phone = Some ''+15550101'',
      ngo_email = None, ngo_lat = None, ngo_lon = None, ngo_services = Some []\<rparr>"

definition twilio_cfg :: config where
  "twilio_cfg =
     \<lparr>TWILIO_SID = Some ''AC0'', TWILIO_TOKEN = Some ''token'', TWILIO_FROM = Some ''+15550000''\<rparr>"

definition motion_request :: json where
  "motion_request = JObj [(''device_id'', JStr ''D1''), (''event'', JStr ''motion'')]"

definition encampment_request :: json where
  "encampment_request =
     JObj [(''device_id'', JStr ''D1''), (''event_type'', JStr ''possible_encampment'')]"

definition encampment_event_request :: json where
  "encampment_event_request =
     JObj [(''device_id'', JStr ''D1''), (''event'', JStr ''possible_encampment'')]"

definition list_device_request :: json where
  "list_device_request =
     JObj [(''device_id'', JList [JStr ''x'']), (''event_type'', JStr ''possible_encampment'')]"

definition list_event_request :: json where
  "list_event_request = JObj [(''event'', JList [JStr ''x''])]"

section \<open>The device bridge: \<^verbatim>\<open>serialbridge.py\<close>\<close>

definition MIN_INTERVAL :: int where
  "MIN_INTERVAL = 2"

subsection \<open>\<^verbatim>\<open>choose_port\<close>\<close>

text \<open>
  What the terminal does at lines 56 and 57: standard input is no terminal, or it is one
  and \<open>Typed choice\<close> gives the answer read, already stripped of surrounding white space,
  or \<^verbatim>\<open>isatty\<close> or \<^verbatim>\<open>input\<close> raises an \<^verbatim>\<open>Exception\<close>.
\<close>

datatype console = NotATty | Typed string | ConsoleError

text \<open>\<^verbatim>\<open>str.lower\<close> on the letters A to Z; every other character is kept.\<close>

definition lower_char :: "char \<Rightarrow> char" where
  "lower_char c =
     (case map_of (zip ''ABCDEFGHIJKLMNOPQRSTUVWXYZ'' ''abcdefghijklmnopqrstuvwxyz'') c of
        None \<Rightarrow> c
      | Some l \<Rightarrow> l)"

definition lower :: "string \<Rightarrow> string" where
  "lower s = map lower_char s"

text \<open>
  Lines 28 to 34 return the preferred port when it is given, not empty, and opens:
  \<open>can_open p\<close> tells whether \<^verbatim>\<open>serial.Serial(p, BAUD, timeout=1)\<close> succeeds. \<open>int_of\<close> is
  Python's \<^verbatim>\<open>int\<close> on a string (\<open>None\<close> where it raises \<^verbatim>\<open>ValueError\<close>), \<open>ports\<close> is the
  device and the description of each entry of \<^verbatim>\<open>list_ports.comports()\<close>.
\<close>

definition preferred_usable :: "(string \<Rightarrow> bool) \<Rightarrow> string option \<Rightarrow> bool" where
  "preferred_usable can_open preferred =
     (case preferred of None \<Rightarrow> False | Some p \<Rightarrow> p \<noteq> [] \<and> can_open p)"

definition choose_port ::
  "(string \<Rightarrow> bool) \<Rightarrow> (string \<Rightarrow> int option) \<Rightarrow> (string \<times> string) list \<Rightarrow> console \<Rightarrow>
   string option \<Rightarrow> string option" where
  "choose_port can_open int_of ports con preferred =
     (if preferred_usable can_open preferred then preferred
      else if ports = [] then None
      else
        (let candidates = ports
         in case con of
              Typed choice \<Rightarrow>
                if lower choice = ''q'' then None
                else
                  (let idx0 = (if choice = [] then 1
                               else (case int_of choice of Some i \<Rightarrow> i | None \<Rightarrow> 1));
                       idx = max 1 (min (int (length candidates)) idx0)
                   in Some (fst (candidates ! nat (idx - 1))))
            | NotATty \<Rightarrow> Some (fst (candidates ! 0))
            | ConsoleError \<Rightarrow> Some (fst (candidates ! 0))))"

text \<open>A reader of plain runs of the digits 0 to 9, as \<^verbatim>\<open>int\<close> reads them.\<close>

fun digits_value :: "int \<Rightarrow> string \<Rightarrow> int option" where
  "digits_value acc [] = Some acc"
| "digits_value acc (c # cs) =
     (if 48 \<le> (of_char c :: nat) \<and> (of_char c :: nat) \<le> 57
      then digits_value (10 * acc + int (of_char c - 48)) cs else None)"

definition digits_int :: "string \<Rightarrow> int option" where
  "digits_int s = (if s = [] then None else digits_value 0 s)"

subsection \<open>Numbers\<close>

text \<open>
  The number a Python value stands for in \<^verbatim>\<open>-\<close> and in a comparison with a number:
  integers, booleans and floats are numbers, anything else raises \<^verbatim>\<open>TypeError\<close>.
\<close>

datatype num = NInt int | NFloat pyfloat

fun py_num :: "json \<Rightarrow> num option" where
  "py_num (JInt i) = Some (NInt i)"
| "py_num (JBool b) = Some (NInt (if b then 1 else 0))"
| "py_num (JFloat f) = Some (NFloat f)"
| "py_num v = None"

text \<open>\<^verbatim>\<open>x > 0\<close>: exact for integers and floats, false for NaN.\<close>

fun positive :: "num \<Rightarrow> bool" where
  "positive (NInt i) = (0 < i)"
| "positive (NFloat (Finite x)) = (0 < x)"
| "positive (NFloat PosInf) = True"
| "positive (NFloat NegInf) = False"
| "positive (NFloat NaN) = False"

text \<open>\<^verbatim>\<open>x < k\<close> for an integer \<open>k\<close>: exact for integers and floats, false for NaN.\<close>

fun less_than :: "num \<Rightarrow> int \<Rightarrow> bool" where
  "less_than (NInt i) k = (i < k)"
| "less_than (NFloat (Finite x)) k = (x < real_of_int k)"
| "less_than (NFloat PosInf) k = False"
| "less_than (NFloat NegInf) k = True"
| "less_than (NFloat NaN) k = False"

text \<open>
  Float arithmetic rounds. \<open>rnd\<close> is the rounding of the platform: the float that stands
  for a real result, an infinity where the result is out of range. An integer that meets
  a float in a subtraction is converted first, and the conversion raises
  \<^verbatim>\<open>OverflowError\<close> where the integer is out of the range of the floats.
\<close>

definition to_float :: "(real \<Rightarrow> pyfloat) \<Rightarrow> int \<Rightarrow> py_error + pyfloat" where
  "to_float rnd i =
     (case rnd (real_of_int i) of
        Finite x \<Rightarrow> Inr (Finite x)
      | other \<Rightarrow> Inl OverflowError)"

fun fsub :: "(real \<Rightarrow> pyfloat) \<Rightarrow> pyfloat \<Rightarrow> pyfloat \<Rightarrow> pyfloat" where
  "fsub rnd NaN b = NaN"
| "fsub rnd a NaN = NaN"
| "fsub rnd PosInf PosInf = NaN"
| "fsub rnd NegInf NegInf = NaN"
| "fsub rnd PosInf b = PosInf"
| "fsub rnd NegInf b = NegInf"
| "fsub rnd (Finite x) PosInf = NegInf"
| "fsub rnd (Finite x) NegInf = PosInf"
| "fsub rnd (Finite x) (Finite y) = rnd (x - y)"

text \<open>\<^verbatim>\<open>a - b\<close> on numbers.\<close>

fun py_sub :: "(real \<Rightarrow> pyfloat) \<Rightarrow> num \<Rightarrow> num \<Rightarrow> py_error + num" where
  "py_sub rnd (NInt i) (NInt j) = Inr (NInt (i - j))"
| "py_sub rnd (NFloat a) (NFloat b) = Inr (NFloat (fsub rnd a b))"
| "py_sub rnd (NInt i) (NFloat b) =
     (case to_float rnd i of Inl e \<Rightarrow> Inl e | Inr a \<Rightarrow> Inr (NFloat (fsub rnd a b)))"
| "py_sub rnd (NFloat a) (NInt j) =
     (case to_float rnd j of Inl e \<Rightarrow> Inl e | Inr b \<Rightarrow> Inr (NFloat (fsub rnd a b)))"

subsection \<open>The read loop of \<^verbatim>\<open>run\<close>\<close>

text \<open>\<^verbatim>\<open>d.setdefault(k, v)\<close>: a missing key is added at the end.\<close>

definition setdefault :: "dict \<Rightarrow> string \<Rightarrow> json \<Rightarrow> dict" where
  "setdefault d k v = (case map_of d k of None \<Rightarrow> d @ [(k, v)] | Some old \<Rightarrow> d)"

text \<open>
  Lines 101 to 107: the payload made of a line. \<open>loads\<close> is \<^verbatim>\<open>json.loads\<close>, \<open>None\<close> where
  it raises \<^verbatim>\<open>JSONDecodeError\<close>; \<open>now\<close> is \<^verbatim>\<open>int(time.time() * 1000)\<close>. A line that parses to
  something other than a dictionary has no \<^verbatim>\<open>setdefault\<close>.
\<close>

definition enrich :: "(string \<Rightarrow> json option) \<Rightarrow> string \<Rightarrow> int \<Rightarrow> py_error + dict" where
  "enrich loads received now =
     (case (case loads received of None \<Rightarrow> JObj [(''raw'', JStr received)] | Some v \<Rightarrow> v) of
        JObj payload \<Rightarrow>
          Inr (setdefault (setdefault payload ''device_id'' (JStr ''ELEGOO_PROTO_01''))
                 ''timestamp_ms'' (JInt now))
      | other \<Rightarrow> Inl AttributeError)"

text \<open>
  Line 111: \<^verbatim>\<open>last_event_time > 0 and (current_time - last_event_time) < (MIN_INTERVAL * 1000)\<close>.
  The subtraction is evaluated only when the first comparison is true.
\<close>

definition too_soon :: "(real \<Rightarrow> pyfloat) \<Rightarrow> json \<Rightarrow> json \<Rightarrow> py_error + bool" where
  "too_soon rnd last_event_time current_time =
     (case py_num last_event_time of
        None \<Rightarrow> Inl TypeError
      | Some l \<Rightarrow>
          if positive l then
            (case py_num current_time of
               None \<Rightarrow> Inl TypeError
             | Some c \<Rightarrow>
                 (case py_sub rnd c l of
                    Inl e \<Rightarrow> Inl e
                  | Inr diff \<Rightarrow> Inr (less_than diff (MIN_INTERVAL * 1000))))
          else Inr False)"

text \<open>
  What one turn of the loop reads: a decoded, stripped line together with the clock at
  that moment, an \<^verbatim>\<open>Exception\<close> of \<^verbatim>\<open>readline\<close>, or the interrupt from the keyboard.
\<close>

datatype reading = Line string int | ReadFailure | KeyboardInterrupt

text \<open>
  What one turn does: nothing on an empty line, the rate limiter skips the payload, the
  payload goes to \<^verbatim>\<open>send_to_backend\<close>, the handler of line 121 swallows an exception and
  pauses, or the loop is left.
\<close>

datatype outcome = Blank | Dropped | Forwarded json | Swallowed | Stopped

text \<open>One turn of the loop, from the watermark \<^verbatim>\<open>last_event_time\<close> to the new one.\<close>

definition turn ::
  "(string \<Rightarrow> json option) \<Rightarrow> (real \<Rightarrow> pyfloat) \<Rightarrow> json \<Rightarrow> reading \<Rightarrow> json \<times> outcome" where
  "turn loads rnd last_event_time r =
     (case r of
        KeyboardInterrupt \<Rightarrow> (last_event_time, Stopped)
      | ReadFailure \<Rightarrow> (last_event_time, Swallowed)
      | Line received now \<Rightarrow>
          if received = [] then (last_event_time, Blank)
          else
            (case enrich loads received now of
               Inl e \<Rightarrow> (last_event_time, Swallowed)
             | Inr payload \<Rightarrow>
                 (case map_of payload ''timestamp_ms'' of
                    None \<Rightarrow> (last_event_time, Swallowed)
                  | Some current_time \<Rightarrow>
                      (case too_soon rnd last_event_time current_time of
                         Inl e \<Rightarrow> (last_event_time, Swallowed)
                       | Inr True \<Rightarrow> (last_event_time, Dropped)
                       | Inr False \<Rightarrow> (current_time, Forwarded (JObj payload))))))"

text \<open>The loop over the readings that arrive; it ends at the interrupt.\<close>

fun run_loop ::
  "(string \<Rightarrow> json option) \<Rightarrow> (real \<Rightarrow> pyfloat) \<Rightarrow> json \<Rightarrow> reading list \<Rightarrow>
   json \<times> outcome list" where
  "run_loop loads rnd last_event_time [] = (last_event_time, [])"
| "run_loop loads rnd last_event_time (r # rs) =
     (let t = turn loads rnd last_event_time r
      in if snd t = Stopped then (fst t, [Stopped])
         else (let later = run_loop loads rnd (fst t) rs in (fst later, snd t # snd later)))"

subsection \<open>Order and rounding\<close>

text \<open>
  The exact order of the numbers, NaN apart: a number as a point of the real line or an
  infinity, and \<open>\<le>\<close> and \<open><\<close> on these.
\<close>

fun point :: "num \<Rightarrow> pyfloat" where
  "point (NInt i) = Finite (real_of_int i)"
| "point (NFloat f) = f"

fun le_f :: "pyfloat \<Rightarrow> pyfloat \<Rightarrow> bool" where
  "le_f NaN b = False"
| "le_f a NaN = False"
| "le_f NegInf b = True"
| "le_f a PosInf = True"
| "le_f (Finite x) (Finite y) = (x \<le> y)"
| "le_f a b = False"

definition lt_f :: "pyfloat \<Rightarrow> pyfloat \<Rightarrow> bool" where
  "lt_f a b = (le_f a b \<and> a \<noteq> b)"

text \<open>
  What the statements below need of the rounding: it keeps the order, and zero is a
  float. Rounding to the nearest double is such a rounding.
\<close>

definition rounding :: "(real \<Rightarrow> pyfloat) \<Rightarrow> bool" where
  "rounding rnd = ((\<forall>x y. x \<le> y \<longrightarrow> le_f (rnd x) (rnd y)) \<and> rnd 0 = Finite 0)"

text \<open>
  A number of the platform that is not NaN: a finite float is one of the floats, which
  rounding leaves as they are.
\<close>

fun plain :: "(real \<Rightarrow> pyfloat) \<Rightarrow> num \<Rightarrow> bool" where
  "plain rnd (NInt i) = True"
| "plain rnd (NFloat (Finite x)) = (rnd x = Finite x)"
| "plain rnd (NFloat PosInf) = True"
| "plain rnd (NFloat NegInf) = True"
| "plain rnd (NFloat NaN) = False"

text \<open>
  The \<^verbatim>\<open>timestamp_ms\<close> a reading carries, when it carries a payload. A reading is tame when
  that timestamp, if it is a number, is a plain one.
\<close>

definition timestamp_of :: "(string \<Rightarrow> json option) \<Rightarrow> reading \<Rightarrow> json option" where
  "timestamp_of loads r =
     (case r of
        Line received now \<Rightarrow>
          if received = [] then None
          else
            (case enrich loads received now of
               Inl e \<Rightarrow> None
             | Inr payload \<Rightarrow> map_of payload ''timestamp_ms'')
      | other \<Rightarrow> None)"

definition tame :: "(string \<Rightarrow> json option) \<Rightarrow> (real \<Rightarrow> pyfloat) \<Rightarrow> reading \<Rightarrow> bool" where
  "tame loads rnd r =
     (case timestamp_of loads r of
        None \<Rightarrow> True
      | Some t \<Rightarrow> (case py_num t of None \<Rightarrow> True | Some c \<Rightarrow> plain rnd c))"

text \<open>
  A reading that carries a payload whose \<^verbatim>\<open>timestamp_ms\<close> is an integer (or a boolean)
  below the integer \<open>l\<close> plus the minimum interval.
\<close>

definition early :: "(string \<Rightarrow> json option) \<Rightarrow> int \<Rightarrow> reading \<Rightarrow> bool" where
  "early loads l r =
     (case timestamp_of loads r of
        None \<Rightarrow> False
      | Some t \<Rightarrow>
          (case py_num t of
             Some (NInt c) \<Rightarrow> c < l + MIN_INTERVAL * 1000
           | other \<Rightarrow> False))"

text \<open>
  A reading that carries a payload whose \<^verbatim>\<open>timestamp_ms\<close> is a plain number below the
  number \<open>w\<close>.
\<close>

definition behind ::
  "(string \<Rightarrow> json option) \<Rightarrow> (real \<Rightarrow> pyfloat) \<Rightarrow> num \<Rightarrow> reading \<Rightarrow> bool" where
  "behind loads rnd w r =
     (case timestamp_of loads r of
        None \<Rightarrow> False
      | Some t \<Rightarrow>
          (case py_num t of
             None \<Rightarrow> False
           | Some c \<Rightarrow> plain rnd c \<and> lt_f (point c) (point w)))"

subsection \<open>Sample lines\<close>

text \<open>A parser that knows some lines, each an object with a \<^verbatim>\<open>timestamp_ms\<close>.\<close>

definition sample_loads :: "string \<Rightarrow> json option" where
  "sample_loads =
     map_of
       [(''{\"timestamp_ms\": 0}'', JObj [(''timestamp_ms'', JInt 0)]),
        (''{\"timestamp_ms\": 5}'', JObj [(''timestamp_ms'', JInt 5)]),
        (''{\"timestamp_ms\": 100}'', JObj [(''timestamp_ms'', JInt 100)]),
        (''{\"timestamp_ms\": 1000}'', JObj [(''timestamp_ms'', JInt 1000)]),
        (''{\"timestamp_ms\": 1500}'', JObj [(''timestamp_ms'', JInt 1500)]),
        (''{\"timestamp_ms\": 3000}'', JObj [(''timestamp_ms'', JInt 3000)]),
        (''{\"timestamp_ms\": -5}'', JObj [(''timestamp_ms'', JInt (- 5))]),
        (''{\"timestamp_ms\": -100}'', JObj [(''timestamp_ms'', JInt (- 100))]),
        (''{\"timestamp_ms\": 2500.5}'', JObj [(''timestamp_ms'', JFloat (Finite 2500.5))]),
        (''{\"timestamp_ms\": NaN}'', JObj [(''timestamp_ms'', JFloat NaN)])]"

section \<open>Properties of the backend\<close>

subsection \<open>Values as Python and the store treat them\<close>

lemma truth_values:
  "\<not> truthy JNull" "\<not> truthy (JBool False)" "\<not> truthy (JInt 0)"
  "\<not> truthy (JFloat (Finite 0))" "\<not> truthy (JStr [])" "\<not> truthy (JList [])"
  "\<not> truthy (JObj [])" "truthy (JInt (- 1))" "truthy (JFloat NaN)" "truthy (JFloat NegInf)"
  "truthy (JStr ''0'')" "truthy (JList [JNull])"
  by simp_all


subsection \<open>Strings of identifiers\<close>

lemma str_nat_nonempty: "str_nat n \<noteq> []"
  by (subst str_nat.simps) simp

lemma str_int_nonempty: "str_int i \<noteq> []"
  by (simp add: str_int_def str_nat_nonempty)




lemma join_nonempty: "xs \<noteq> [] \<Longrightarrow> hd xs \<noteq> [] \<Longrightarrow> join sep xs \<noteq> []"
  by (induction sep xs rule: join.induct) simp_all


lemma matched_string_nonempty:
  "ns \<noteq> [] \<Longrightarrow> join '','' (map (\<lambda>n. str_int (ngo_id n)) ns) \<noteq> []"
  by (rule join_nonempty) (simp_all add: hd_map str_int_nonempty)



subsection \<open>The dispatcher\<close>

lemma notify_loop_entries:
  "fst (notify_loop cfg failing ev i ns) =
     map (\<lambda>n. \<lparr>msg_ngo = ngo_name n, msg_phone = ngo_phone n,
                msg_message = message_text ev\<rparr>) ns"
  by (induction ns arbitrary: i) (simp_all add: Let_def)

lemma notify_loop_attempts:
  "attempts (snd (notify_loop cfg failing ev i ns)) =
     (if truthy_str (TWILIO_SID cfg)
      then map (\<lambda>n. (message_text ev, TWILIO_FROM cfg, ngo_phone n))
             (filter (\<lambda>n. truthy_str (ngo_phone n)) ns)
      else [])"
  by (induction ns arbitrary: i) (simp_all add: Let_def)



subsection \<open>The ways through the ingest handler\<close>

lemma receive_event_no_json:
  "receive_event cfg failing now d NoJson = Inl (UnsupportedMediaType, [])"
  "receive_event cfg failing now d Malformed = Inl (BadRequest, [])"
  by (simp_all add: receive_event_def get_json_def)

lemma receive_event_no_dict:
  assumes "\<forall>data. request_data body \<noteq> JObj data"
  shows "receive_event cfg failing now d (Json body) = Inl (AttributeError, [])"
  using assms by (cases "request_data body") (simp_all add: receive_event_def get_json_def)

lemma receive_event_refused:
  assumes "request_data body = JObj data"
    and "bind (request_device_id data) = None \<or> bind (request_event_type data) = None"
  shows "receive_event cfg failing now d (Json body) =
     Inl (CommitError, [Printed (Received (request_event_type data) (request_device_id data))])"
  using assms
  by (auto simp: receive_event_def get_json_def Let_def split: option.splits)

lemma receive_event_logged:
  assumes "request_data body = JObj data"
    and "request_event_type data \<noteq> JStr ''possible_encampment''"
    and "bind (request_device_id data) = Some stored_device_id"
    and "bind (request_event_type data) = Some stored_event_type"
  shows "receive_event cfg failing now d (Json body) =
     Inr (d\<lparr>events := events d @
               [\<lparr>ev_id = next_id (events d), ev_device_id = stored_device_id,
                 ev_event_type = stored_event_type, ev_raw = JObj data,
                 ev_created_at = now, ev_matched_ngos = None, ev_status = ''new''\<rparr>]\<rparr>,
          \<lparr>resp_status = ''ok'', resp_event_id = next_id (events d),
           resp_notified = None, resp_message = ''Event logged''\<rparr>,
          [Printed (Received (request_event_type data) (request_device_id data)), Commit,
           Printed (EventLogged (next_id (events d)))])"
  using assms by (simp add: receive_event_def get_json_def Let_def)

lemma receive_event_warning:
  assumes "request_data body = JObj data"
    and "request_event_type data = JStr ''possible_encampment''"
    and "bind (request_device_id data) = Some stored_device_id"
    and "ngos d = []"
  shows "receive_event cfg failing now d (Json body) =
     Inr (d\<lparr>events := events d @
               [\<lparr>ev_id = next_id (events d), ev_device_id = stored_device_id,
                 ev_event_type = Text ''possible_encampment'', ev_raw = JObj data,
                 ev_created_at = now, ev_matched_ngos = None, ev_status = ''new''\<rparr>]\<rparr>,
          \<lparr>resp_status = ''warning'', resp_event_id = next_id (events d),
           resp_notified = None, resp_message = ''Event saved but no NGOs registered''\<rparr>,
          [Printed (Received (JStr ''possible_encampment'') (request_device_id data)), Commit,
           Printed CriticalAlert, QueryAllNGO, Printed NoNGOsRegistered,
           Printed NoNGOsAvailable])"
  using assms by (simp add: receive_event_def get_json_def match_ngos_for_event_def Let_def)

lemma receive_event_notified:
  assumes "request_data body = JObj data"
    and "request_event_type data = JStr ''possible_encampment''"
    and "bind (request_device_id data) = Some stored_device_id"
    and "ngos d \<noteq> []"
  shows "receive_event cfg failing now d (Json body) =
     Inr (d\<lparr>events := events d @
               [\<lparr>ev_id = next_id (events d), ev_device_id = stored_device_id,
                 ev_event_type = Text ''possible_encampment'', ev_raw = JObj data,
                 ev_created_at = now,
                 ev_matched_ngos =
                   Some (join '','' (map (\<lambda>n. str_int (ngo_id n)) (take 10 (ngos d)))),
                 ev_status = ''notified''\<rparr>]\<rparr>,
          \<lparr>resp_status = ''ok'', resp_event_id = next_id (events d),
           resp_notified = Some (fst (notify_ngos cfg failing (take 10 (ngos d)) data)),
           resp_message = ''Alert sent to '' @ str_nat (length (take 10 (ngos d))) @ '' NGOs''\<rparr>,
          [Printed (Received (JStr ''possible_encampment'') (request_device_id data)), Commit,
           Printed CriticalAlert, QueryAllNGO,
           Printed (Matched (length (take 10 (ngos d))) (dict_get data ''event_type'' (JStr '''')))]
          @ snd (notify_ngos cfg failing (take 10 (ngos d)) data)
          @ [Commit, Printed (EventNotified (next_id (events d)) (length (take 10 (ngos d))))])"
  using assms by (simp add: receive_event_def get_json_def match_ngos_for_event_def Let_def)



lemma sample_requests:
  "request_data motion_request =
     JObj [(''device_id'', JStr ''D1''), (''event'', JStr ''motion'')]"
  "request_data encampment_request =
     JObj [(''device_id'', JStr ''D1''), (''event_type'', JStr ''possible_encampment'')]"
  "request_data encampment_event_request =
     JObj [(''device_id'', JStr ''D1''), (''event'', JStr ''possible_encampment'')]"
  "request_data list_device_request =
     JObj [(''device_id'', JList [JStr ''x'']), (''event_type'', JStr ''possible_encampment'')]"
  "request_data list_event_request = JObj [(''event'', JList [JStr ''x''])]"
  by (simp_all add: request_data_def py_or_def motion_request_def encampment_request_def
        encampment_event_request_def list_device_request_def list_event_request_def)

lemma sample_fields:
  "request_event_type [(''device_id'', JStr ''D1''), (''event'', JStr ''motion'')] =
     JStr ''motion''"
  "request_device_id [(''device_id'', JStr ''D1''), (''event'', JStr ''motion'')] = JStr ''D1''"
  "request_event_type
     [(''device_id'', JStr ''D1''), (''event_type'', JStr ''possible_encampment'')] =
     JStr ''possible_encampment''"
  "request_device_id
     [(''device_id'', JStr ''D1''), (''event_type'', JStr ''possible_encampment'')] = JStr ''D1''"
  "request_event_type
     [(''device_id'', JList [JStr ''x'']), (''event_type'', JStr ''possible_encampment'')] =
     JStr ''possible_encampment''"
  "request_device_id
     [(''device_id'', JList [JStr ''x'']), (''event_type'', JStr ''possible_encampment'')] =
     JList [JStr ''x'']"
  "request_event_type [(''event'', JList [JStr ''x''])] = JList [JStr ''x'']"
  "request_device_id [(''event'', JList [JStr ''x''])] = JStr ''unknown''"
  "request_event_type [] = JStr ''unknown''"
  "request_device_id [] = JStr ''unknown''"
  by (simp_all add: request_event_type_def request_device_id_def py_or_def dict_get_def)

subsection \<open>Claims about ingest\<close>













subsection \<open>Claims about the dispatcher\<close>

lemma sample_alert_text:
  "message_text [(''device_id'', JStr ''D1''), (''event_type'', JStr ''possible_encampment'')] =
     AlertText (JStr ''D1'')"
  by (simp add: message_text_def dict_get_def)

lemma sample_alert_entries:
  "fst (notify_ngos twilio_cfg failing [shelter_a, shelter_b]
          [(''device_id'', JStr ''D1''), (''event_type'', JStr ''possible_encampment'')]) =
     [\<lparr>msg_ngo = Some ''Shelter A'', msg_phone = Some ''+15550100'',
       msg_message = AlertText (JStr ''D1'')\<rparr>,
      \<lparr>msg_ngo = Some ''Shelter B'', msg_phone = Some ''+15550101'',
       msg_message = AlertText (JStr ''D1'')\<rparr>]"
  by (simp only: notify_ngos_def notify_loop_entries sample_alert_text)
     (simp add: shelter_a_def shelter_b_def)

text \<open>
  C4, as the specification states it, fails. The entries \<^verbatim>\<open>notify_ngos\<close> returns have the keys
  \<^verbatim>\<open>ngo\<close>, \<^verbatim>\<open>phone\<close> and \<^verbatim>\<open>message\<close> and nothing that tells whether the provider accepted the
  message: when the call for Shelter A raises and the call for Shelter B returns, the
  result is the one of two calls that return. Only the printed lines differ.
\<close>

theorem dispatch_result_has_no_sent_field_counterexample:
  "fst (notify_ngos twilio_cfg {0} [shelter_a, shelter_b]
          [(''device_id'', JStr ''D1''), (''event_type'', JStr ''possible_encampment'')]) =
     [\<lparr>msg_ngo = Some ''Shelter A'', msg_phone = Some ''+15550100'',
       msg_message = AlertText (JStr ''D1'')\<rparr>,
      \<lparr>msg_ngo = Some ''Shelter B'', msg_phone = Some ''+15550101'',
       msg_message = AlertText (JStr ''D1'')\<rparr>] \<and>
   fst (notify_ngos twilio_cfg {} [shelter_a, shelter_b]
          [(''device_id'', JStr ''D1''), (''event_type'', JStr ''possible_encampment'')]) =
     fst (notify_ngos twilio_cfg {0} [shelter_a, shelter_b]
          [(''device_id'', JStr ''D1''), (''event_type'', JStr ''possible_encampment'')]) \<and>
   Printed TwilioError \<in> set (snd (notify_ngos twilio_cfg {0} [shelter_a, shelter_b]
          [(''device_id'', JStr ''D1''), (''event_type'', JStr ''possible_encampment'')])) \<and>
   Printed TwilioError \<notin> set (snd (notify_ngos twilio_cfg {} [shelter_a, shelter_b]
          [(''device_id'', JStr ''D1''), (''event_type'', JStr ''possible_encampment'')]))"
  by (simp add: sample_alert_entries)
     (simp add: notify_ngos_def Let_def twilio_cfg_def shelter_a_def shelter_b_def)

text \<open>
  C4, amended. \<^verbatim>\<open>notify_ngos\<close> always returns, with one entry per responder given, in
  order, that holds the responder's name and phone and the message built for the event;
  the entries do not depend on what the provider does. A provider call with that
  message as its body is made for every responder with a phone when the provider is
  configured, whatever happened to the calls before it, and for none otherwise. When
  ingest reaches the dispatcher (the event is stored and responders are matched), it
  stores the status \<^verbatim>\<open>notified\<close> and answers with the entries, whichever calls fail.
\<close>

theorem dispatch_one_entry_per_responder:
  "fst (notify_ngos cfg failing ns ev) =
     map (\<lambda>n. \<lparr>msg_ngo = ngo_name n, msg_phone = ngo_phone n,
                msg_message = message_text ev\<rparr>) ns \<and>
   length (fst (notify_ngos cfg failing ns ev)) = length ns \<and>
   fst (notify_ngos cfg failing ns ev) = fst (notify_ngos cfg failing' ns ev) \<and>
   attempts (snd (notify_ngos cfg failing ns ev)) =
     (if truthy_str (TWILIO_SID cfg)
      then map (\<lambda>n. (message_text ev, TWILIO_FROM cfg, ngo_phone n))
             (filter (\<lambda>n. truthy_str (ngo_phone n)) ns)
      else []) \<and>
   (request_data body = JObj data \<and> request_event_type data = JStr ''possible_encampment'' \<and>
    bind (request_device_id data) = Some stored_device_id \<and> ngos d \<noteq> [] \<longrightarrow>
      (\<exists>d' r es stored.
         receive_event cfg failing now d (Json body) = Inr (d', r, es) \<and>
         events d' = events d @ [stored] \<and> ev_status stored = ''notified'' \<and>
         resp_notified r =
           Some (map (\<lambda>n. \<lparr>msg_ngo = ngo_name n, msg_phone = ngo_phone n,
                            msg_message = message_text data\<rparr>)
                   (take 10 (ngos d)))))"
proof (intro conjI impI)
  show "fst (notify_ngos cfg failing ns ev) =
     map (\<lambda>n. \<lparr>msg_ngo = ngo_name n, msg_phone = ngo_phone n,
                msg_message = message_text ev\<rparr>) ns"
    by (simp add: notify_ngos_def notify_loop_entries)
  show "length (fst (notify_ngos cfg failing ns ev)) = length ns"
    by (simp add: notify_ngos_def notify_loop_entries)
  show "fst (notify_ngos cfg failing ns ev) = fst (notify_ngos cfg failing' ns ev)"
    by (simp add: notify_ngos_def notify_loop_entries)
  show "attempts (snd (notify_ngos cfg failing ns ev)) =
     (if truthy_str (TWILIO_SID cfg)
      then map (\<lambda>n. (message_text ev, TWILIO_FROM cfg, ngo_phone n))
             (filter (\<lambda>n. truthy_str (ngo_phone n)) ns)
      else [])"
    unfolding notify_ngos_def by (rule notify_loop_attempts)
next
  assume h: "request_data body = JObj data \<and>
    request_event_type data = JStr ''possible_encampment'' \<and>
    bind (request_device_id data) = Some stored_device_id \<and> ngos d \<noteq> []"
  then have a: "request_data body = JObj data"
    and b: "request_event_type data = JStr ''possible_encampment''"
    and s: "bind (request_device_id data) = Some stored_device_id"
    and c: "ngos d \<noteq> []"
    by simp_all
  from receive_event_notified [OF a b s c, of cfg failing now]
  show "\<exists>d' r es stored.
         receive_event cfg failing now d (Json body) = Inr (d', r, es) \<and>
         events d' = events d @ [stored] \<and> ev_status stored = ''notified'' \<and>
         resp_notified r =
           Some (map (\<lambda>n. \<lparr>msg_ngo = ngo_name n, msg_phone = ngo_phone n,
                            msg_message = message_text data\<rparr>)
                   (take 10 (ngos d)))"
    by (simp add: notify_ngos_def notify_loop_entries)
qed

theorem dispatch_one_entry_per_responder_witness:
  "\<exists>d' r es stored.
     receive_event twilio_cfg {0} 0 \<lparr>events = [], ngos = [shelter_a, shelter_b]\<rparr>
       (Json encampment_request) = Inr (d', r, es) \<and>
     events d' = [stored] \<and> ev_status stored = ''notified'' \<and>
     resp_notified r =
       Some [\<lparr>msg_ngo = Some ''Shelter A'', msg_phone = Some ''+15550100'',
              msg_message = AlertText (JStr ''D1'')\<rparr>,
             \<lparr>msg_ngo = Some ''Shelter B'', msg_phone = Some ''+15550101'',
              msg_message = AlertText (JStr ''D1'')\<rparr>]"
proof -
  have b: "bind (request_device_id
                   [(''device_id'', JStr ''D1''), (''event_type'', JStr ''possible_encampment'')]) =
             Some (Text ''D1'')"
    by (simp add: sample_fields)
  have c: "ngos \<lparr>events = [], ngos = [shelter_a, shelter_b]\<rparr> \<noteq> []" by simp
  from dispatch_one_entry_per_responder
         [of twilio_cfg "{0}" "[]" "[]" "{}" encampment_request
             "[(''device_id'', JStr ''D1''), (''event_type'', JStr ''possible_encampment'')]"
             "Text ''D1''" "\<lparr>events = [], ngos = [shelter_a, shelter_b]\<rparr>" 0]
       sample_requests(2) sample_fields(3) b c
  show ?thesis by (simp add: sample_alert_text shelter_a_def shelter_b_def)
qed

text \<open>
  C5. The claim is right about what the messages should say, and the code misses it: a
  request that names the critical type under the key \<^verbatim>\<open>event\<close> is notified, since line 105
  reads that key, but \<^verbatim>\<open>notify_ngos\<close> reads only \<^verbatim>\<open>event_type\<close> of the same body (line 72),
  finds \<^verbatim>\<open>unknown\<close>, and sends the informational text.
\<close>

theorem event_key_alert_sends_informational_text:
  "receive_event twilio_cfg {} 0 \<lparr>events = [], ngos = [shelter_a]\<rparr>
     (Json encampment_event_request) =
     Inr (\<lparr>events =
             [\<lparr>ev_id = 1, ev_device_id = Text ''D1'',
               ev_event_type = Text ''possible_encampment'',
               ev_raw = encampment_event_request, ev_created_at = 0,
               ev_matched_ngos = Some ''1'', ev_status = ''notified''\<rparr>],
           ngos = [shelter_a]\<rparr>,
          \<lparr>resp_status = ''ok'', resp_event_id = 1,
           resp_notified =
             Some [\<lparr>msg_ngo = Some ''Shelter A'', msg_phone = Some ''+15550100'',
                    msg_message = NotificationText (JStr ''D1'')\<rparr>],
           resp_message = ''Alert sent to 1 NGOs''\<rparr>,
          [Printed (Received (JStr ''possible_encampment'') (JStr ''D1'')), Commit,
           Printed CriticalAlert, QueryAllNGO, Printed (Matched 1 (JStr [])),
           Printed (Notifying (Some ''Shelter A'') (Some ''+15550100'')
                      (NotificationText (JStr ''D1''))),
           SmsAttempt (NotificationText (JStr ''D1'')) (Some ''+15550000'') (Some ''+15550100''),
           Printed SmsSent, Commit, Printed (EventNotified 1 1)])"
  by (simp add: receive_event_def get_json_def request_data_def request_event_type_def
        request_device_id_def py_or_def dict_get_def encampment_event_request_def
        match_ngos_for_event_def notify_ngos_def message_text_def next_id_def Let_def
        str_int_def str_nat.simps shelter_a_def twilio_cfg_def)

subsection \<open>The invariant of the event table\<close>

lemma receive_event_sound:
  assumes "store_sound d" and "receive_event cfg failing now d rq = Inr (d', r, es)"
  shows "store_sound d'"
proof (cases rq)
  case NoJson
  with assms(2) show ?thesis by (simp add: receive_event_no_json)
next
  case Malformed
  with assms(2) show ?thesis by (simp add: receive_event_no_json)
next
  case (Json body)
  show ?thesis
  proof (cases "\<exists>data. request_data body = JObj data")
    case False
    then have "receive_event cfg failing now d (Json body) = Inl (AttributeError, [])"
      by (intro receive_event_no_dict) simp
    with assms(2) Json show ?thesis by simp
  next
    case True
    then obtain data where a: "request_data body = JObj data" by blast
    show ?thesis
    proof (cases "bind (request_device_id data) = None \<or> bind (request_event_type data) = None")
      case True
      from receive_event_refused [OF a True, of cfg failing now d] assms(2) Json
      show ?thesis by simp
    next
      case False
      then obtain sd st where sd: "bind (request_device_id data) = Some sd"
        and st: "bind (request_event_type data) = Some st"
        by auto
      show ?thesis
      proof (cases "request_event_type data = JStr ''possible_encampment''")
        case False
        from receive_event_logged [OF a False sd st, of cfg failing now d] assms Json
        show ?thesis by (auto simp: store_sound_def event_sound_def)
      next
        case True
        show ?thesis
        proof (cases "ngos d = []")
          case True
          from receive_event_warning
                 [OF a \<open>request_event_type data = JStr ''possible_encampment''\<close> sd True,
                  of cfg failing now]
               assms Json
          show ?thesis by (auto simp: store_sound_def event_sound_def)
        next
          case False
          then have "take 10 (ngos d) \<noteq> []" by simp
          from matched_string_nonempty [OF this]
               receive_event_notified
                 [OF a \<open>request_event_type data = JStr ''possible_encampment''\<close> sd False,
                  of cfg failing now]
               assms Json
          show ?thesis by (auto simp: store_sound_def event_sound_def)
        qed
      qed
    qed
  qed
qed

lemma clear_events_sound: "store_sound (fst (clear_events d))"
  by (simp add: clear_events_def store_sound_def)

lemma reachable_sound: "reachable d \<Longrightarrow> store_sound d"
proof (induction rule: reachable.induct)
  case start
  show ?case by (simp add: store_sound_def)
next
  case (ingest d cfg failing now body d' r es)
  then show ?case by (blast intro: receive_event_sound)
next
  case (clear d)
  show ?case by (rule clear_events_sound)
next
  case (admin d ns)
  then show ?case by (simp add: store_sound_def)
qed

text \<open>
  C6. Every event of a store the endpoints can reach is sound: the status \<^verbatim>\<open>notified\<close>
  comes with a \<^verbatim>\<open>matched_ngos\<close> string that is not empty. An ingest that answers keeps a
  sound store sound, for every body, and so does the bulk clear.
\<close>

theorem notified_implies_matched:
  "(store_sound d \<and> receive_event cfg failing now d body = Inr (d', r, es) \<longrightarrow> store_sound d') \<and>
   (store_sound d \<longrightarrow> store_sound (fst (clear_events d))) \<and>
   (reachable d0 \<longrightarrow> store_sound d0) \<and>
   (store_sound d0 \<and> e \<in> set (events d0) \<and> ev_status e = ''notified'' \<longrightarrow>
      (\<exists>s. ev_matched_ngos e = Some s \<and> s \<noteq> []))"
proof (intro conjI impI)
  assume "store_sound d \<and> receive_event cfg failing now d body = Inr (d', r, es)"
  then show "store_sound d'" by (blast intro: receive_event_sound)
next
  show "store_sound (fst (clear_events d))" by (rule clear_events_sound)
next
  assume "reachable d0"
  then show "store_sound d0" by (rule reachable_sound)
next
  assume "store_sound d0 \<and> e \<in> set (events d0) \<and> ev_status e = ''notified''"
  then have "event_sound e" and "ev_status e = ''notified''"
    by (simp_all add: store_sound_def list_all_iff)
  then show "\<exists>s. ev_matched_ngos e = Some s \<and> s \<noteq> []"
    by (cases "ev_matched_ngos e") (simp_all add: event_sound_def)
qed

theorem notified_implies_matched_witness:
  "reachable
     \<lparr>events =
        [\<lparr>ev_id = 1, ev_device_id = Text ''D1'', ev_event_type = Text ''possible_encampment'',
          ev_raw = encampment_request, ev_created_at = 0, ev_matched_ngos = Some ''1'',
          ev_status = ''notified''\<rparr>],
      ngos = [shelter_a]\<rparr> \<and>
   store_sound
     \<lparr>events =
        [\<lparr>ev_id = 1, ev_device_id = Text ''D1'', ev_event_type = Text ''possible_encampment'',
          ev_raw = encampment_request, ev_created_at = 0, ev_matched_ngos = Some ''1'',
          ev_status = ''notified''\<rparr>],
      ngos = [shelter_a]\<rparr> \<and>
   (\<exists>s. ev_matched_ngos
          \<lparr>ev_id = 1, ev_device_id = Text ''D1'', ev_event_type = Text ''possible_encampment'',
           ev_raw = encampment_request, ev_created_at = 0, ev_matched_ngos = Some ''1'',
           ev_status = ''notified''\<rparr> = Some s \<and> s \<noteq> [])"
proof -
  let ?e = "\<lparr>ev_id = 1, ev_device_id = Text ''D1'', ev_event_type = Text ''possible_encampment'',
             ev_raw = encampment_request, ev_created_at = 0, ev_matched_ngos = Some ''1'',
             ev_status = ''notified''\<rparr>"
  let ?d = "\<lparr>events = [?e], ngos = [shelter_a]\<rparr>"
  have b: "bind (request_device_id
                   [(''device_id'', JStr ''D1''), (''event_type'', JStr ''possible_encampment'')]) =
             Some (Text ''D1'')"
    by (simp add: sample_fields)
  have c: "ngos \<lparr>events = [], ngos = [shelter_a]\<rparr> \<noteq> []" by simp
  have r0: "reachable \<lparr>events = [], ngos = []\<rparr>" by (rule reachable.start)
  from reachable.admin [OF r0, of "[shelter_a]"]
  have r1: "reachable \<lparr>events = [], ngos = [shelter_a]\<rparr>" by simp
  have "\<exists>r es. receive_event twilio_cfg {} 0 \<lparr>events = [], ngos = [shelter_a]\<rparr>
                  (Json encampment_request) = Inr (?d, r, es)"
    unfolding receive_event_notified [OF sample_requests(2) sample_fields(3) b c]
    by (simp add: next_id_def str_int_def str_nat.simps shelter_a_def encampment_request_def)
  then obtain r es where
    "receive_event twilio_cfg {} 0 \<lparr>events = [], ngos = [shelter_a]\<rparr> (Json encampment_request) =
       Inr (?d, r, es)"
    by blast
  from reachable.ingest [OF r1 this] have r2: "reachable ?d" .
  have m: "?e \<in> set (events ?d)" "ev_status ?e = ''notified''" by simp_all
  from notified_implies_matched [where ?d0.0 = ?d and e = ?e] r2 m
  show ?thesis by simp
qed

section \<open>Properties of the device bridge\<close>

subsection \<open>Rounding\<close>

lemma rounding_finite_mono:
  assumes "rounding rnd" and "rnd x = Finite a" and "rnd y = Finite b" and "x \<le> y"
  shows "a \<le> b"
proof -
  from assms(1,4) have "le_f (rnd x) (rnd y)" by (simp add: rounding_def)
  with assms(2,3) show ?thesis by simp
qed

lemma rounded_difference_small:
  assumes "rounding rnd" and "rnd x = Finite a" and "rnd y = Finite b" and "x \<le> y"
    and "0 < k"
  shows "less_than (NFloat (rnd (a - b))) k"
proof -
  from rounding_finite_mono [OF assms(1-4)] have "a - b \<le> 0" by simp
  with assms(1) have le: "le_f (rnd (a - b)) (Finite 0)"
    by (metis rounding_def)
  show ?thesis
  proof (cases "rnd (a - b)")
    case (Finite z)
    with le have "z \<le> 0" by simp
    with assms(5) Finite show ?thesis by simp
  next
    case PosInf
    with le show ?thesis by simp
  next
    case NegInf
    then show ?thesis by simp
  next
    case NaN
    with le show ?thesis by simp
  qed
qed

lemma to_float_finite:
  "to_float rnd i = Inr a \<Longrightarrow> \<exists>x. a = Finite x \<and> rnd (real_of_int i) = Finite x"
  by (cases "rnd (real_of_int i)") (auto simp: to_float_def)

text \<open>
  A difference that line 111 does not find below the minimum interval comes from a
  timestamp above the watermark.
\<close>

lemma not_small_above:
  assumes r: "rounding rnd" and pw: "positive w" and lw: "plain rnd w" and lc: "plain rnd c"
    and s: "py_sub rnd c w = Inr diff" and n: "\<not> less_than diff k" and k: "0 < k"
  shows "positive c \<and> le_f (point w) (point c)"
proof (cases c)
  case (NInt i)
  show ?thesis
  proof (cases w)
    case (NInt j)
    with \<open>c = NInt i\<close> pw s n k show ?thesis by auto
  next
    case (NFloat b)
    from s \<open>c = NInt i\<close> NFloat obtain a where
      a: "to_float rnd i = Inr a" and d: "diff = NFloat (fsub rnd a b)"
      by (auto split: sum.splits)
    from to_float_finite [OF a] obtain x where
      x: "a = Finite x" "rnd (real_of_int i) = Finite x" by blast
    show ?thesis
    proof (cases b)
      case (Finite y)
      with lw NFloat have py: "rnd y = Finite y" by simp
      have "\<not> real_of_int i \<le> y"
      proof
        assume "real_of_int i \<le> y"
        from rounded_difference_small [OF r x(2) py this k] d x(1) Finite n
        show False by simp
      qed
      with pw NFloat Finite \<open>c = NInt i\<close> show ?thesis by simp
    next
      case PosInf
      with d x(1) n show ?thesis by simp
    next
      case NegInf
      with pw NFloat show ?thesis by simp
    next
      case NaN
      with pw NFloat show ?thesis by simp
    qed
  qed
next
  case (NFloat a)
  show ?thesis
  proof (cases w)
    case (NInt j)
    from s \<open>c = NFloat a\<close> NInt obtain b where
      b: "to_float rnd j = Inr b" and d: "diff = NFloat (fsub rnd a b)"
      by (auto split: sum.splits)
    from to_float_finite [OF b] obtain y where
      y: "b = Finite y" "rnd (real_of_int j) = Finite y" by blast
    show ?thesis
    proof (cases a)
      case (Finite x)
      with lc \<open>c = NFloat a\<close> have px: "rnd x = Finite x" by simp
      have "\<not> x \<le> real_of_int j"
      proof
        assume "x \<le> real_of_int j"
        from rounded_difference_small [OF r px y(2) this k] d y(1) Finite n
        show False by simp
      qed
      with pw NInt Finite \<open>c = NFloat a\<close> show ?thesis by simp
    next
      case PosInf
      with \<open>c = NFloat a\<close> NInt show ?thesis by simp
    next
      case NegInf
      with d y(1) n show ?thesis by simp
    next
      case NaN
      with lc \<open>c = NFloat a\<close> show ?thesis by simp
    qed
  next
    case (NFloat b)
    from s \<open>c = NFloat a\<close> NFloat have d: "diff = NFloat (fsub rnd a b)" by simp
    show ?thesis
    proof (cases a)
      case (Finite x)
      with lc \<open>c = NFloat a\<close> have px: "rnd x = Finite x" by simp
      show ?thesis
      proof (cases b)
        case (Finite y)
        with lw NFloat have py: "rnd y = Finite y" by simp
        have "\<not> x \<le> y"
        proof
          assume "x \<le> y"
          from rounded_difference_small [OF r px py this k] d \<open>a = Finite x\<close> Finite n
          show False by simp
        qed
        with pw NFloat Finite \<open>a = Finite x\<close> \<open>c = NFloat a\<close> show ?thesis by simp
      next
        case PosInf
        with d \<open>a = Finite x\<close> n show ?thesis by simp
      next
        case NegInf
        with pw NFloat show ?thesis by simp
      next
        case NaN
        with pw NFloat show ?thesis by simp
      qed
    next
      case PosInf
      with lw pw NFloat \<open>c = NFloat a\<close> show ?thesis by (cases b) simp_all
    next
      case NegInf
      with d n lw pw NFloat show ?thesis by (cases b) simp_all
    next
      case NaN
      with lc \<open>c = NFloat a\<close> show ?thesis by simp
    qed
  qed
qed

text \<open>
  A timestamp below the watermark gives a difference that line 111 finds below the
  minimum interval, unless the conversion of an integer to a float overflows.
\<close>

lemma behind_small:
  assumes r: "rounding rnd" and pw: "positive w" and lw: "plain rnd w" and lc: "plain rnd c"
    and b: "lt_f (point c) (point w)" and k: "0 < k"
  shows "py_sub rnd c w = Inl OverflowError \<or>
         (\<exists>diff. py_sub rnd c w = Inr diff \<and> less_than diff k)"
proof (cases "py_sub rnd c w")
  case (Inl e)
  then show ?thesis
    by (cases c; cases w) (auto simp: to_float_def split: sum.splits pyfloat.splits)
next
  case (Inr diff)
  have "less_than diff k"
  proof (rule ccontr)
    assume "\<not> less_than diff k"
    from not_small_above [OF r pw lw lc Inr this k] have "le_f (point w) (point c)" by simp
    with b show False
      by (cases "point c"; cases "point w") (auto simp: lt_f_def)
  qed
  with Inr show ?thesis by simp
qed

subsection \<open>The rate limiter\<close>

lemma turn_without_timestamp:
  assumes "timestamp_of loads r = None"
  shows "fst (turn loads rnd mark r) = mark \<and> (\<forall>p. snd (turn loads rnd mark r) \<noteq> Forwarded p)"
  using assms
  by (auto simp: turn_def timestamp_of_def split: reading.splits sum.splits if_splits)

lemma turn_with_timestamp:
  assumes "timestamp_of loads r = Some t"
  shows "\<exists>p. map_of p ''timestamp_ms'' = Some t \<and>
           turn loads rnd mark r =
             (case too_soon rnd mark t of
                Inl e \<Rightarrow> (mark, Swallowed)
              | Inr True \<Rightarrow> (mark, Dropped)
              | Inr False \<Rightarrow> (t, Forwarded (JObj p)))"
  using assms
  by (auto simp: turn_def timestamp_of_def split: reading.splits sum.splits if_splits)

lemma turn_forward_or_stay:
  assumes r: "rounding rnd" and m: "py_num mark = Some w" and pw: "positive w"
    and lw: "plain rnd w" and t: "tame loads rnd x"
  shows "(fst (turn loads rnd mark x) = mark \<and> (\<forall>p. snd (turn loads rnd mark x) \<noteq> Forwarded p)) \<or>
         (\<exists>p c. snd (turn loads rnd mark x) = Forwarded (JObj p) \<and>
                 map_of p ''timestamp_ms'' = Some (fst (turn loads rnd mark x)) \<and>
                 py_num (fst (turn loads rnd mark x)) = Some c \<and>
                 positive c \<and> plain rnd c \<and> le_f (point w) (point c))"
proof (cases "timestamp_of loads x")
  case None
  from turn_without_timestamp [OF None] show ?thesis by blast
next
  case (Some ts)
  from turn_with_timestamp [OF Some, of rnd mark] obtain p where
    p: "map_of p ''timestamp_ms'' = Some ts"
       "turn loads rnd mark x =
          (case too_soon rnd mark ts of
             Inl e \<Rightarrow> (mark, Swallowed)
           | Inr True \<Rightarrow> (mark, Dropped)
           | Inr False \<Rightarrow> (ts, Forwarded (JObj p)))"
    by blast
  show ?thesis
  proof (cases "too_soon rnd mark ts = Inr False")
    case False
    with p(2) show ?thesis
      by (cases "too_soon rnd mark ts") (auto split: bool.splits)
  next
    case True
    with m pw obtain c diff where
      c: "py_num ts = Some c" "py_sub rnd c w = Inr diff"
         "\<not> less_than diff (MIN_INTERVAL * 1000)"
      by (auto simp: too_soon_def split: option.splits sum.splits)
    from t Some c(1) have lc: "plain rnd c" by (simp add: tame_def)
    have "0 < MIN_INTERVAL * 1000" by (simp add: MIN_INTERVAL_def)
    from not_small_above [OF r pw lw lc c(2) c(3) this]
    have "positive c \<and> le_f (point w) (point c)" .
    with True p c(1) lc show ?thesis by simp
  qed
qed

lemma le_f_trans: "le_f a b \<Longrightarrow> le_f b c \<Longrightarrow> le_f a c"
  by (cases a; cases b; cases c) simp_all

lemma le_f_refl: "plain rnd w \<Longrightarrow> le_f (point w) (point w)"
proof (cases w)
  case (NInt i)
  then show ?thesis by simp
next
  case (NFloat f)
  assume "plain rnd w"
  with NFloat show ?thesis by (cases f) simp_all
qed

lemma run_loop_watermark:
  assumes "rounding rnd" and "py_num mark = Some w" and "positive w" and "plain rnd w"
    and "\<forall>x \<in> set rs. tame loads rnd x"
  shows "\<exists>w'. py_num (fst (run_loop loads rnd mark rs)) = Some w' \<and> positive w' \<and>
           plain rnd w' \<and> le_f (point w) (point w')"
  using assms(2-)
proof (induction rs arbitrary: mark w)
  case Nil
  then show ?case by (auto intro: le_f_refl)
next
  case (Cons x rs)
  from Cons.prems have tx: "tame loads rnd x" and trs: "\<forall>y \<in> set rs. tame loads rnd y"
    by simp_all
  let ?t = "turn loads rnd mark x"
  have rf: "le_f (point w) (point w)" by (rule le_f_refl [OF Cons.prems(3)])
  from turn_forward_or_stay [OF assms(1) Cons.prems(1-3) tx]
  obtain w1 where w1: "py_num (fst ?t) = Some w1" "positive w1" "plain rnd w1"
    "le_f (point w) (point w1)"
    using Cons.prems(1-3) rf by auto
  show ?case
  proof (cases "snd ?t = Stopped")
    case True
    with w1 show ?thesis by (auto simp: Let_def)
  next
    case False
    from Cons.IH [OF w1(1-3) trs] obtain w2 where
      "py_num (fst (run_loop loads rnd (fst ?t) rs)) = Some w2" "positive w2" "plain rnd w2"
      "le_f (point w1) (point w2)"
      by blast
    with False w1(4) show ?thesis by (auto simp: Let_def intro: le_f_trans)
  qed
qed

lemma turn_behind:
  assumes r: "rounding rnd" and m: "py_num mark = Some w" and pw: "positive w"
    and lw: "plain rnd w" and b: "behind loads rnd w x"
  shows "turn loads rnd mark x = (mark, Dropped) \<or> turn loads rnd mark x = (mark, Swallowed)"
proof -
  from b obtain ts c where ts: "timestamp_of loads x = Some ts" and c: "py_num ts = Some c"
    and lc: "plain rnd c" and lt: "lt_f (point c) (point w)"
    by (auto simp: behind_def split: option.splits)
  have "0 < MIN_INTERVAL * 1000" by (simp add: MIN_INTERVAL_def)
  from behind_small [OF r pw lw lc lt this] m pw c
  have "too_soon rnd mark ts = Inl OverflowError \<or> too_soon rnd mark ts = Inr True"
    by (auto simp: too_soon_def)
  with turn_with_timestamp [OF ts, of rnd mark] show ?thesis by auto
qed

lemma run_loop_behind:
  assumes "rounding rnd" and "py_num mark = Some w" and "positive w" and "plain rnd w"
    and "\<forall>x \<in> set rs. behind loads rnd w x"
  shows "fst (run_loop loads rnd mark rs) = mark \<and>
         (\<forall>out \<in> set (snd (run_loop loads rnd mark rs)). out = Dropped \<or> out = Swallowed)"
  using assms(5)
proof (induction rs)
  case Nil
  show ?case by simp
next
  case (Cons x rs)
  then have "behind loads rnd w x" by simp
  from turn_behind [OF assms(1-4) this] Cons show ?case
    by (auto simp: Let_def)
qed

lemma turn_early:
  assumes m: "py_num mark = Some (NInt l)" and pl: "0 < l" and e: "early loads l x"
  shows "turn loads rnd mark x = (mark, Dropped)"
proof -
  from e obtain ts c where ts: "timestamp_of loads x = Some ts" and c: "py_num ts = Some (NInt c)"
    and lt: "c < l + MIN_INTERVAL * 1000"
    by (auto simp: early_def split: option.splits num.splits)
  from m pl c lt have "too_soon rnd mark ts = Inr True"
    by (simp add: too_soon_def)
  with turn_with_timestamp [OF ts, of rnd mark] show ?thesis by auto
qed

lemma run_loop_early:
  assumes "py_num mark = Some (NInt l)" and "0 < l" and "\<forall>x \<in> set rs. early loads l x"
  shows "run_loop loads rnd mark rs = (mark, map (\<lambda>x. Dropped) rs)"
  using assms(3)
  by (induction rs) (simp_all add: turn_early [OF assms(1,2)] Let_def)

lemma sample_enrich:
  "enrich sample_loads ''{\"timestamp_ms\": 0}'' now =
     Inr [(''timestamp_ms'', JInt 0), (''device_id'', JStr ''ELEGOO_PROTO_01'')]"
  "enrich sample_loads ''{\"timestamp_ms\": 5}'' now =
     Inr [(''timestamp_ms'', JInt 5), (''device_id'', JStr ''ELEGOO_PROTO_01'')]"
  "enrich sample_loads ''{\"timestamp_ms\": 100}'' now =
     Inr [(''timestamp_ms'', JInt 100), (''device_id'', JStr ''ELEGOO_PROTO_01'')]"
  "enrich sample_loads ''{\"timestamp_ms\": 1000}'' now =
     Inr [(''timestamp_ms'', JInt 1000), (''device_id'', JStr ''ELEGOO_PROTO_01'')]"
  "enrich sample_loads ''{\"timestamp_ms\": 1500}'' now =
     Inr [(''timestamp_ms'', JInt 1500), (''device_id'', JStr ''ELEGOO_PROTO_01'')]"
  "enrich sample_loads ''{\"timestamp_ms\": 3000}'' now =
     Inr [(''timestamp_ms'', JInt 3000), (''device_id'', JStr ''ELEGOO_PROTO_01'')]"
  "enrich sample_loads ''{\"timestamp_ms\": -5}'' now =
     Inr [(''timestamp_ms'', JInt (- 5)), (''device_id'', JStr ''ELEGOO_PROTO_01'')]"
  "enrich sample_loads ''{\"timestamp_ms\": -100}'' now =
     Inr [(''timestamp_ms'', JInt (- 100)), (''device_id'', JStr ''ELEGOO_PROTO_01'')]"
  "enrich sample_loads ''{\"timestamp_ms\": 2500.5}'' now =
     Inr [(''timestamp_ms'', JFloat (Finite 2500.5)), (''device_id'', JStr ''ELEGOO_PROTO_01'')]"
  "enrich sample_loads ''{\"timestamp_ms\": NaN}'' now =
     Inr [(''timestamp_ms'', JFloat NaN), (''device_id'', JStr ''ELEGOO_PROTO_01'')]"
  by (simp_all add: enrich_def sample_loads_def setdefault_def)

lemma sample_timestamps:
  "timestamp_of sample_loads (Line ''{\"timestamp_ms\": 0}'' now) = Some (JInt 0)"
  "timestamp_of sample_loads (Line ''{\"timestamp_ms\": 5}'' now) = Some (JInt 5)"
  "timestamp_of sample_loads (Line ''{\"timestamp_ms\": 100}'' now) = Some (JInt 100)"
  "timestamp_of sample_loads (Line ''{\"timestamp_ms\": 1500}'' now) = Some (JInt 1500)"
  "timestamp_of sample_loads (Line ''{\"timestamp_ms\": 3000}'' now) = Some (JInt 3000)"
  "timestamp_of sample_loads (Line ''{\"timestamp_ms\": 2500.5}'' now) =
     Some (JFloat (Finite 2500.5))"
  by (simp_all add: timestamp_of_def sample_enrich)

lemma sample_comparisons:
  "too_soon Finite (JInt 1000) (JInt 1500) = Inr True"
  "too_soon Finite (JInt 1000) (JInt 3000) = Inr False"
  "too_soon Finite (JInt 0) (JInt 100) = Inr False"
  "too_soon Finite (JBool True) (JInt 500) = Inr True"
  "too_soon Finite (JInt 1000) (JFloat (Finite 1500.5)) = Inr True"
  "too_soon Finite (JFloat (Finite 1000)) (JInt 3000) = Inr False"
  "too_soon Finite (JInt 1000) (JFloat NaN) = Inr False"
  "too_soon Finite (JFloat NaN) (JInt 5) = Inr False"
  "too_soon Finite (JFloat PosInf) (JInt 5) = Inr True"
  "too_soon Finite (JFloat PosInf) (JFloat PosInf) = Inr False"
  "too_soon Finite (JInt 1000) (JStr ''1500'') = Inl TypeError"
  "too_soon Finite (JStr ''1000'') (JInt 1500) = Inl TypeError"
  "too_soon Finite (JInt 0) (JStr ''1500'') = Inr False"
  "too_soon (\<lambda>x. PosInf) (JFloat (Finite 1000)) (JInt 1500) = Inl OverflowError"
  by (simp_all add: too_soon_def to_float_def MIN_INTERVAL_def)

lemma exact_rounding: "rounding Finite"
  by (simp add: rounding_def)

text \<open>
  C3. The claim is what the rate limiter is written for (line 109: "skip if last event
  was too recent"), and the code misses it where the first payload's \<^verbatim>\<open>timestamp_ms\<close> is 0:
  0 is also the value \<^verbatim>\<open>last_event_time\<close> starts with (line 11), line 111 takes it for a
  watermark that was never set, and the payload that follows only 100 ms later is
  forwarded too. After a first payload at 1000 the same loop drops one that follows
  500 ms later.
\<close>

theorem zero_timestamp_is_not_rate_limited:
  "run_loop sample_loads Finite (JInt 0)
     [Line ''{\"timestamp_ms\": 0}'' 5, Line ''{\"timestamp_ms\": 100}'' 6] =
     (JInt 100,
      [Forwarded (JObj [(''timestamp_ms'', JInt 0), (''device_id'', JStr ''ELEGOO_PROTO_01'')]),
       Forwarded (JObj [(''timestamp_ms'', JInt 100), (''device_id'', JStr ''ELEGOO_PROTO_01'')])]) \<and>
   (100 :: int) - 0 < MIN_INTERVAL * 1000 \<and>
   run_loop sample_loads Finite (JInt 0)
     [Line ''{\"timestamp_ms\": 1000}'' 5, Line ''{\"timestamp_ms\": 1500}'' 6] =
     (JInt 1000,
      [Forwarded (JObj [(''timestamp_ms'', JInt 1000), (''device_id'', JStr ''ELEGOO_PROTO_01'')]),
       Dropped])"
  by (simp add: turn_def sample_enrich too_soon_def MIN_INTERVAL_def Let_def)

text \<open>
  C8, as the specification states it, fails. A watermark that a forwarded payload set to
  a value that is not positive is lowered by the next payload: from the start, the
  timestamps -5 and -100 are both forwarded and leave the watermark at -100. And a
  positive watermark is lost to a payload whose \<^verbatim>\<open>timestamp_ms\<close> is NaN: no comparison with
  NaN is true, so from the watermark 1000 the NaN payload is forwarded, and after it a
  payload with the timestamp 5, which lowers the watermark to 5. (The rounding of these
  two runs keeps every real; no step of them rounds.)
\<close>

theorem watermark_lowered_counterexample:
  "run_loop sample_loads Finite (JInt 0)
     [Line ''{\"timestamp_ms\": -5}'' 1, Line ''{\"timestamp_ms\": -100}'' 2] =
     (JInt (- 100),
      [Forwarded (JObj [(''timestamp_ms'', JInt (- 5)), (''device_id'', JStr ''ELEGOO_PROTO_01'')]),
       Forwarded (JObj [(''timestamp_ms'', JInt (- 100)), (''device_id'', JStr ''ELEGOO_PROTO_01'')])]) \<and>
   run_loop sample_loads Finite (JInt 1000)
     [Line ''{\"timestamp_ms\": NaN}'' 1, Line ''{\"timestamp_ms\": 5}'' 2] =
     (JInt 5,
      [Forwarded (JObj [(''timestamp_ms'', JFloat NaN), (''device_id'', JStr ''ELEGOO_PROTO_01'')]),
       Forwarded (JObj [(''timestamp_ms'', JInt 5), (''device_id'', JStr ''ELEGOO_PROTO_01'')])])"
  by (simp add: turn_def sample_enrich too_soon_def to_float_def MIN_INTERVAL_def Let_def)

text \<open>
  C8, amended. Let the watermark be a positive number, which is what line 111 tests, and
  not NaN, and let no payload carry NaN as its \<^verbatim>\<open>timestamp_ms\<close>. Then the watermark never
  decreases and stays such a number, whatever the loop reads: a turn either leaves it as
  it is and forwards nothing, or forwards a payload and moves it up to that payload's
  \<^verbatim>\<open>timestamp_ms\<close>. A payload whose timestamp is below the watermark is never forwarded and
  leaves the watermark alone, and neither is, at an integer watermark, a payload whose
  integer timestamp is below the watermark plus the minimum interval; a run of such
  payloads, however long, is dropped whole. With floats the difference of line 111 is
  a rounded one: a payload is dropped whenever that difference is below the minimum
  interval.
\<close>

theorem watermark_only_moves_forward:
  assumes "rounding rnd" and "py_num mark = Some w" and "positive w" and "plain rnd w"
  shows "((\<forall>x \<in> set rs. tame loads rnd x) \<longrightarrow>
            (\<exists>w'. py_num (fst (run_loop loads rnd mark rs)) = Some w' \<and> positive w' \<and>
                   plain rnd w' \<and> le_f (point w) (point w'))) \<and>
         (tame loads rnd r \<longrightarrow>
            (fst (turn loads rnd mark r) = mark \<and>
             (\<forall>p. snd (turn loads rnd mark r) \<noteq> Forwarded p)) \<or>
            (\<exists>p c. snd (turn loads rnd mark r) = Forwarded (JObj p) \<and>
                    map_of p ''timestamp_ms'' = Some (fst (turn loads rnd mark r)) \<and>
                    py_num (fst (turn loads rnd mark r)) = Some c \<and>
                    positive c \<and> plain rnd c \<and> le_f (point w) (point c))) \<and>
         ((\<forall>x \<in> set rs. behind loads rnd w x) \<longrightarrow>
            fst (run_loop loads rnd mark rs) = mark \<and>
            (\<forall>out \<in> set (snd (run_loop loads rnd mark rs)). out = Dropped \<or> out = Swallowed)) \<and>
         (\<forall>l. w = NInt l \<and> (\<forall>x \<in> set rs. early loads l x) \<longrightarrow>
            run_loop loads rnd mark rs = (mark, map (\<lambda>x. Dropped) rs)) \<and>
         (timestamp_of loads r = Some t \<and> py_num t = Some c \<and> py_sub rnd c w = Inr diff \<and>
          less_than diff (MIN_INTERVAL * 1000) \<longrightarrow>
            turn loads rnd mark r = (mark, Dropped))"
proof (intro conjI impI allI)
  assume "\<forall>x \<in> set rs. tame loads rnd x"
  then show "\<exists>w'. py_num (fst (run_loop loads rnd mark rs)) = Some w' \<and> positive w' \<and>
                   plain rnd w' \<and> le_f (point w) (point w')"
    by (rule run_loop_watermark [OF assms])
next
  assume "tame loads rnd r"
  then show "(fst (turn loads rnd mark r) = mark \<and>
             (\<forall>p. snd (turn loads rnd mark r) \<noteq> Forwarded p)) \<or>
            (\<exists>p c. snd (turn loads rnd mark r) = Forwarded (JObj p) \<and>
                    map_of p ''timestamp_ms'' = Some (fst (turn loads rnd mark r)) \<and>
                    py_num (fst (turn loads rnd mark r)) = Some c \<and>
                    positive c \<and> plain rnd c \<and> le_f (point w) (point c))"
    by (rule turn_forward_or_stay [OF assms])
next
  assume "\<forall>x \<in> set rs. behind loads rnd w x"
  from run_loop_behind [OF assms this]
  show "fst (run_loop loads rnd mark rs) = mark"
    and "\<forall>out \<in> set (snd (run_loop loads rnd mark rs)). out = Dropped \<or> out = Swallowed"
    by simp_all
next
  fix l
  assume h: "w = NInt l \<and> (\<forall>x \<in> set rs. early loads l x)"
  with assms(2,3) have "py_num mark = Some (NInt l)" "0 < l" by simp_all
  from run_loop_early [OF this] h
  show "run_loop loads rnd mark rs = (mark, map (\<lambda>x. Dropped) rs)" by simp
next
  assume h: "timestamp_of loads r = Some t \<and> py_num t = Some c \<and> py_sub rnd c w = Inr diff \<and>
    less_than diff (MIN_INTERVAL * 1000)"
  with assms(2,3) have "too_soon rnd mark t = Inr True"
    by (simp add: too_soon_def)
  with turn_with_timestamp [of loads r t rnd mark] h
  show "turn loads rnd mark r = (mark, Dropped)" by auto
qed

theorem watermark_only_moves_forward_witness:
  "(\<exists>w'. py_num (fst (run_loop sample_loads Finite (JInt 1000)
                        [Line ''{\"timestamp_ms\": 1500}'' 1, Line ''{\"timestamp_ms\": 3000}'' 2,
                         Line ''{\"timestamp_ms\": 2500.5}'' 3])) = Some w' \<and>
          positive w' \<and> le_f (Finite 1000) (point w')) \<and>
   fst (run_loop sample_loads Finite (JInt 1000)
          [Line ''{\"timestamp_ms\": 100}'' 1, Line ''{\"timestamp_ms\": 5}'' 2]) = JInt 1000 \<and>
   run_loop sample_loads Finite (JInt 1000)
     [Line ''{\"timestamp_ms\": 1500}'' 1, Line ''{\"timestamp_ms\": 100}'' 2,
      Line ''{\"timestamp_ms\": 0}'' 3] =
     (JInt 1000, [Dropped, Dropped, Dropped])"
proof -
  have a: "py_num (JInt 1000) = Some (NInt 1000)" "positive (NInt 1000)"
    "plain Finite (NInt 1000)"
    by simp_all
  have t: "\<forall>x \<in> set [Line ''{\"timestamp_ms\": 1500}'' 1, Line ''{\"timestamp_ms\": 3000}'' 2,
                       Line ''{\"timestamp_ms\": 2500.5}'' 3]. tame sample_loads Finite x"
    by (simp add: tame_def sample_timestamps)
  have b: "\<forall>x \<in> set [Line ''{\"timestamp_ms\": 100}'' 1, Line ''{\"timestamp_ms\": 5}'' 2].
             behind sample_loads Finite (NInt 1000) x"
    by (simp add: behind_def sample_timestamps lt_f_def)
  have e: "\<forall>x \<in> set [Line ''{\"timestamp_ms\": 1500}'' 1, Line ''{\"timestamp_ms\": 100}'' 2,
                       Line ''{\"timestamp_ms\": 0}'' 3]. early sample_loads 1000 x"
    by (simp add: early_def sample_timestamps MIN_INTERVAL_def)
  from watermark_only_moves_forward
         [OF exact_rounding a,
          where loads = sample_loads and
            rs = "[Line ''{\"timestamp_ms\": 1500}'' 1, Line ''{\"timestamp_ms\": 3000}'' 2,
                   Line ''{\"timestamp_ms\": 2500.5}'' 3]"]
       t
  have 1: "\<exists>w'. py_num (fst (run_loop sample_loads Finite (JInt 1000)
                        [Line ''{\"timestamp_ms\": 1500}'' 1, Line ''{\"timestamp_ms\": 3000}'' 2,
                         Line ''{\"timestamp_ms\": 2500.5}'' 3])) = Some w' \<and>
          positive w' \<and> le_f (Finite 1000) (point w')"
    by (simp del: run_loop.simps) blast
  from watermark_only_moves_forward
         [OF exact_rounding a,
          where loads = sample_loads and
            rs = "[Line ''{\"timestamp_ms\": 100}'' 1, Line ''{\"timestamp_ms\": 5}'' 2]"]
       b
  have 2: "fst (run_loop sample_loads Finite (JInt 1000)
          [Line ''{\"timestamp_ms\": 100}'' 1, Line ''{\"timestamp_ms\": 5}'' 2]) = JInt 1000"
    by (simp del: run_loop.simps)
  from watermark_only_moves_forward
         [OF exact_rounding a,
          where loads = sample_loads and
            rs = "[Line ''{\"timestamp_ms\": 1500}'' 1, Line ''{\"timestamp_ms\": 100}'' 2,
                   Line ''{\"timestamp_ms\": 0}'' 3]"]
       e
  have 3: "run_loop sample_loads Finite (JInt 1000)
     [Line ''{\"timestamp_ms\": 1500}'' 1, Line ''{\"timestamp_ms\": 100}'' 2,
      Line ''{\"timestamp_ms\": 0}'' 3] =
     (JInt 1000, [Dropped, Dropped, Dropped])"
    by (simp del: run_loop.simps)
  from 1 2 3 show ?thesis by blast
qed

subsection \<open>The port selector\<close>

lemma lower_q: "lower s = ''q'' \<longleftrightarrow> s = ''q'' \<or> s = ''Q''"
proof -
  have c: "lower_char c = CHR ''q'' \<longleftrightarrow> c = CHR ''q'' \<or> c = CHR ''Q''" for c
    by (auto simp: lower_char_def split: if_splits)
  show ?thesis
    by (cases s) (auto simp: lower_def c)
qed

lemma clamp_index:
  assumes "ports \<noteq> []"
  shows "1 \<le> max 1 (min (int (length ports)) i)"
    and "max 1 (min (int (length ports)) i) \<le> int (length ports)"
    and "nat (max 1 (min (int (length ports)) i) - 1) < length ports"
  using assms by (cases ports; simp)+

text \<open>
  C9. Let the preferred port be absent or unusable. With no port enumerated the selector
  returns nothing. Otherwise: a blank answer selects the first port; the answer \<^verbatim>\<open>q\<close> or
  \<^verbatim>\<open>Q\<close>, and no other, returns nothing; an answer that \<^verbatim>\<open>int\<close> reads as \<open>i\<close> selects the port
  at the 1-based index \<open>i\<close> clamped into \<open>[1, length ports]\<close>, which always exists; an answer
  \<^verbatim>\<open>int\<close> cannot read selects the first port; and the first port is selected as well when
  standard input is no terminal or the interaction raises.
\<close>

theorem choose_port_selects:
  assumes "\<not> preferred_usable can_open preferred"
  shows "(ports = [] \<longrightarrow> choose_port can_open int_of ports con preferred = None) \<and>
         (ports \<noteq> [] \<longrightarrow>
            choose_port can_open int_of ports (Typed []) preferred = Some (fst (hd ports)) \<and>
            choose_port can_open int_of ports NotATty preferred = Some (fst (hd ports)) \<and>
            choose_port can_open int_of ports ConsoleError preferred = Some (fst (hd ports))) \<and>
         (ports \<noteq> [] \<and> (choice = ''q'' \<or> choice = ''Q'') \<longrightarrow>
            choose_port can_open int_of ports (Typed choice) preferred = None) \<and>
         (ports \<noteq> [] \<and> choice \<noteq> [] \<and> choice \<noteq> ''q'' \<and> choice \<noteq> ''Q'' \<and>
          int_of choice = Some i \<longrightarrow>
            choose_port can_open int_of ports (Typed choice) preferred =
              Some (fst (ports ! nat (max 1 (min (int (length ports)) i) - 1))) \<and>
            1 \<le> max 1 (min (int (length ports)) i) \<and>
            max 1 (min (int (length ports)) i) \<le> int (length ports) \<and>
            nat (max 1 (min (int (length ports)) i) - 1) < length ports) \<and>
         (ports \<noteq> [] \<and> choice \<noteq> [] \<and> choice \<noteq> ''q'' \<and> choice \<noteq> ''Q'' \<and>
          int_of choice = None \<longrightarrow>
            choose_port can_open int_of ports (Typed choice) preferred = Some (fst (hd ports)))"
proof (intro conjI impI)
  assume "ports = []"
  with assms show "choose_port can_open int_of ports con preferred = None"
    by (simp add: choose_port_def)
next
  assume "ports \<noteq> []"
  with assms show "choose_port can_open int_of ports (Typed []) preferred = Some (fst (hd ports))"
    by (simp add: choose_port_def lower_q hd_conv_nth)
next
  assume "ports \<noteq> []"
  with assms show "choose_port can_open int_of ports NotATty preferred = Some (fst (hd ports))"
    by (simp add: choose_port_def hd_conv_nth)
next
  assume "ports \<noteq> []"
  with assms show "choose_port can_open int_of ports ConsoleError preferred = Some (fst (hd ports))"
    by (simp add: choose_port_def hd_conv_nth)
next
  assume "ports \<noteq> [] \<and> (choice = ''q'' \<or> choice = ''Q'')"
  with assms show "choose_port can_open int_of ports (Typed choice) preferred = None"
    by (simp add: choose_port_def lower_q)
next
  assume h: "ports \<noteq> [] \<and> choice \<noteq> [] \<and> choice \<noteq> ''q'' \<and> choice \<noteq> ''Q'' \<and>
    int_of choice = Some i"
  with assms show "choose_port can_open int_of ports (Typed choice) preferred =
      Some (fst (ports ! nat (max 1 (min (int (length ports)) i) - 1)))"
    by (simp add: choose_port_def lower_q Let_def)
  from h clamp_index [of ports i]
  show "1 \<le> max 1 (min (int (length ports)) i)"
    and "max 1 (min (int (length ports)) i) \<le> int (length ports)"
    and "nat (max 1 (min (int (length ports)) i) - 1) < length ports"
    by simp_all
next
  assume "ports \<noteq> [] \<and> choice \<noteq> [] \<and> choice \<noteq> ''q'' \<and> choice \<noteq> ''Q'' \<and>
    int_of choice = None"
  with assms show "choose_port can_open int_of ports (Typed choice) preferred =
      Some (fst (hd ports))"
    by (simp add: choose_port_def lower_q Let_def hd_conv_nth)
qed

theorem choose_port_selects_witness:
  "choose_port (\<lambda>p. False) digits_int [] NotATty (Some ''/dev/cu.usbmodem101'') = None \<and>
   choose_port (\<lambda>p. False) digits_int [(''/dev/ttyUSB0'', ''USB Serial''), (''/dev/ttyACM0'', ''Arduino'')]
     (Typed []) (Some ''/dev/cu.usbmodem101'') = Some ''/dev/ttyUSB0'' \<and>
   choose_port (\<lambda>p. False) digits_int [(''/dev/ttyUSB0'', ''USB Serial''), (''/dev/ttyACM0'', ''Arduino'')]
     (Typed ''Q'') (Some ''/dev/cu.usbmodem101'') = None \<and>
   choose_port (\<lambda>p. False) digits_int [(''/dev/ttyUSB0'', ''USB Serial''), (''/dev/ttyACM0'', ''Arduino'')]
     (Typed ''7'') (Some ''/dev/cu.usbmodem101'') = Some ''/dev/ttyACM0'' \<and>
   choose_port (\<lambda>p. False) digits_int [(''/dev/ttyUSB0'', ''USB Serial''), (''/dev/ttyACM0'', ''Arduino'')]
     (Typed ''x'') (Some ''/dev/cu.usbmodem101'') = Some ''/dev/ttyUSB0''"
proof -
  let ?ports = "[(''/dev/ttyUSB0'', ''USB Serial''), (''/dev/ttyACM0'', ''Arduino'')]"
  have a: "\<not> preferred_usable (\<lambda>p. False) (Some ''/dev/cu.usbmodem101'')"
    by (simp add: preferred_usable_def)
  have p: "?ports \<noteq> []" by simp
  have i: "digits_int ''7'' = Some 7" "digits_int ''x'' = None"
    by (simp_all add: digits_int_def)
  from choose_port_selects [OF a, of "[]" digits_int NotATty "''Q''" 7]
  have 1: "choose_port (\<lambda>p. False) digits_int [] NotATty (Some ''/dev/cu.usbmodem101'') = None"
    by simp
  from choose_port_selects [OF a, of ?ports digits_int NotATty "''Q''" 7] p
  have 2: "choose_port (\<lambda>p. False) digits_int ?ports (Typed []) (Some ''/dev/cu.usbmodem101'') =
             Some ''/dev/ttyUSB0''"
    and 3: "choose_port (\<lambda>p. False) digits_int ?ports (Typed ''Q'') (Some ''/dev/cu.usbmodem101'') =
             None"
    by simp_all
  from choose_port_selects [OF a, of ?ports digits_int NotATty "''7''" 7] p i
  have 4: "choose_port (\<lambda>p. False) digits_int ?ports (Typed ''7'') (Some ''/dev/cu.usbmodem101'') =
             Some ''/dev/ttyACM0''"
    by simp
  from choose_port_selects [OF a, of ?ports digits_int NotATty "''x''" 7] p i
  have 5: "choose_port (\<lambda>p. False) digits_int ?ports (Typed ''x'') (Some ''/dev/cu.usbmodem101'') =
             Some ''/dev/ttyUSB0''"
    by simp
  from 1 2 3 4 5 show ?thesis by simp
qed

end
